theory Spec2Isabelle
  imports
    Main
    "HOL-Library.Char_ord"
    "HOL-Library.List_Lexorder"
    "HOL-Library.Product_Lexorder"
begin

section \<open>Python strings, exceptions and paths\<close>

text \<open>
  Directory names, configuration lines and log texts are Python \<open>str\<close> values. They are
  modelled as \<^typ>\<open>string\<close>; every prefix and separator the daemons look for is ASCII.
\<close>

definition lower_char :: "char \<Rightarrow> char" where
  "lower_char c =
     (case map_of (zip ''ABCDEFGHIJKLMNOPQRSTUVWXYZ'' ''abcdefghijklmnopqrstuvwxyz'') c of
        Some l \<Rightarrow> l
      | None \<Rightarrow> c)"

text \<open>\<open>str.lower()\<close>: only the letters A to Z matter to the ASCII prefixes tested below.\<close>

definition lower :: "string \<Rightarrow> string" where
  "lower s = map lower_char s"

text \<open>\<open>s.startswith(p)\<close> and \<open>s.endswith(p)\<close>\<close>

definition startswith :: "string \<Rightarrow> string \<Rightarrow> bool" where
  "startswith s p = (take (length p) s = p)"

definition endswith :: "string \<Rightarrow> string \<Rightarrow> bool" where
  "endswith s p = (length p \<le> length s \<and> drop (length s - length p) s = p)"

text \<open>
  \<open>s.replace(old, new)\<close>: every occurrence of \<open>old\<close>, found from left to right without
  overlap. Both callers pass a non-empty \<open>old\<close>; for an empty one the model returns \<open>s\<close>.
\<close>

function replace :: "string \<Rightarrow> string \<Rightarrow> string \<Rightarrow> string" where
  "replace old new [] = []"
| "replace old new (c # s) =
     (if old \<noteq> [] \<and> startswith (c # s) old
      then new @ replace old new (drop (length old) (c # s))
      else c # replace old new s)"
  by pat_completeness auto
termination
  by (relation "measure (\<lambda>(old, new, s). length s)") (auto simp: startswith_def)

text \<open>\<open>s.split(c)\<close> for a separator of one character: never an empty list.\<close>

fun split :: "char \<Rightarrow> string \<Rightarrow> string list" where
  "split c [] = [[]]"
| "split c (x # xs) =
     (if x = c then [] # split c xs
      else (case split c xs of [] \<Rightarrow> [[x]] | p # ps \<Rightarrow> (x # p) # ps))"

text \<open>
  \<open>s.strip()\<close>: the ASCII white space (tab, line feed, vertical tab, form feed, carriage
  return, the separators 28 to 31, space).
\<close>

definition is_space :: "char \<Rightarrow> bool" where
  "is_space c = ((9::nat) \<le> of_char c \<and> of_char c \<le> (13::nat)
     \<or> (28::nat) \<le> of_char c \<and> of_char c \<le> (32::nat))"

definition strip :: "string \<Rightarrow> string" where
  "strip s = rev (dropWhile is_space (rev (dropWhile is_space s)))"

text \<open>
  \<open>int(s)\<close> in base ten: white space around, an optional sign, digits, single underscores
  between digits. \<open>None\<close> is the \<open>ValueError\<close>.
\<close>

definition digit_val :: "char \<Rightarrow> nat option" where
  "digit_val c = map_of (zip ''0123456789'' [0, 1, 2, 3, 4, 5, 6, 7, 8, 9]) c"

fun digits_ok :: "string \<Rightarrow> bool" where
  "digits_ok [] = False"
| "digits_ok [c] = (digit_val c \<noteq> None)"
| "digits_ok (c # d # s) =
     (digit_val c \<noteq> None
      \<and> (if d = CHR ''_'' then digits_ok s else digits_ok (d # s)))"

definition digits_value :: "string \<Rightarrow> nat" where
  "digits_value s = foldl (\<lambda>acc c. 10 * acc + (case digit_val c of None \<Rightarrow> 0 | Some v \<Rightarrow> v)) 0
     (filter (\<lambda>c. c \<noteq> CHR ''_'') s)"

definition py_int :: "string \<Rightarrow> int option" where
  "py_int s =
     (case strip s of
        [] \<Rightarrow> None
      | c # r \<Rightarrow>
          if c = CHR ''-'' then (if digits_ok r then Some (- int (digits_value r)) else None)
          else if c = CHR ''+'' then (if digits_ok r then Some (int (digits_value r)) else None)
          else (if digits_ok (c # r) then Some (int (digits_value (c # r))) else None))"

text \<open>
  The exception classes the daemons meet. \<open>IOError\<close> and \<open>WindowsError\<close> are aliases of
  \<open>OSError\<close>; \<open>OSError\<close> here is an operating system error of no more special class;
  \<open>OtherException\<close> is any other subclass of \<open>Exception\<close>.
\<close>

datatype exn =
  FileNotFoundError | PermissionError | FileExistsError | ConnectionError | OSError
  | KeyError | IndexError | ValueError | OtherException

definition is_OSError :: "exn \<Rightarrow> bool" where
  "is_OSError e = (e \<in> {FileNotFoundError, PermissionError, FileExistsError, ConnectionError, OSError})"

text \<open>
  A \<open>pathlib\<close> path: its anchor (drive and root) and the components after it. \<open>str(p)\<close>
  joins them with the separator of the host, Windows here; \<open>p.name\<close> is the last component;
  \<open>p.stem\<close> is the name without its last suffix.
\<close>

record pure_path =
  pp_anchor :: string
  pp_parts :: "string list"

definition sep :: char where
  "sep = CHR 0x5C"

fun join_parts :: "string list \<Rightarrow> string" where
  "join_parts [] = []"
| "join_parts [p] = p"
| "join_parts (p # q # ps) = p @ sep # join_parts (q # ps)"

definition path_str :: "pure_path \<Rightarrow> string" where
  "path_str p =
     (if pp_anchor p = [] \<and> pp_parts p = [] then ''.'' else pp_anchor p @ join_parts (pp_parts p))"

definition path_name :: "pure_path \<Rightarrow> string" where
  "path_name p = (if pp_parts p = [] then [] else last (pp_parts p))"

definition stem :: "string \<Rightarrow> string" where
  "stem name =
     (let j = length (takeWhile (\<lambda>c. c \<noteq> CHR ''.'') (rev name));
          i = length name - 1 - j
      in if j < length name \<and> 0 < i \<and> 0 < j then take i name else name)"

text \<open>The slice \<open>s[0:k]\<close>: a negative \<open>k\<close> counts from the end.\<close>

definition slice_to :: "string \<Rightarrow> int \<Rightarrow> string" where
  "slice_to s k = (if k < 0 then take (nat (int (length s) + k)) s else take (nat k) s)"

section \<open>Job directories on disk\<close>

text \<open>
  One sub-directory of the shared scan directory, as far as the two daemons look at it:
  its basename, its regular files (by name, each as the list of its lines), its
  sub-folders (by name, each as the listing of its file names) and its modification time
  in whole seconds since the epoch. The scan directory is the list of its sub-directories
  in the order \<open>iterdir()\<close> yields them.
\<close>

record job_dir =
  jd_name :: string
  jd_files :: "string \<rightharpoonup> string list"
  jd_dirs :: "string \<rightharpoonup> string list"
  jd_mtime :: nat

definition find_dir :: "job_dir list \<Rightarrow> string \<Rightarrow> job_dir option" where
  "find_dir fs name = find (\<lambda>d. jd_name d = name) fs"

text \<open>
  \<open>Path.rename\<close>: fails when the source is gone, when the target exists (Windows), or when
  the host refuses (the first argument: a folder in use, missing rights).
\<close>

definition fs_rename ::
  "(string \<Rightarrow> string \<Rightarrow> exn option) \<Rightarrow> job_dir list \<Rightarrow> string \<Rightarrow> string \<Rightarrow> exn + job_dir list" where
  "fs_rename refuses fs old new =
     (if find_dir fs old = None then Inl FileNotFoundError
      else if old \<noteq> new \<and> find_dir fs new \<noteq> None then Inl FileExistsError
      else (case refuses old new of
              Some e \<Rightarrow> Inl e
            | None \<Rightarrow> Inr (map (\<lambda>d. if jd_name d = old then d\<lparr>jd_name := new\<rparr> else d) fs)))"

text \<open>\<open>Path(dir, file).write_text(line)\<close>\<close>

definition write_text :: "job_dir list \<Rightarrow> string \<Rightarrow> string \<Rightarrow> string \<Rightarrow> exn + job_dir list" where
  "write_text fs dir file line =
     (if find_dir fs dir = None then Inl FileNotFoundError
      else Inr (map (\<lambda>d. if jd_name d = dir then d\<lparr>jd_files := (jd_files d)(file \<mapsto> [line])\<rparr> else d) fs))"

section \<open>Scheduler (watchdog \<open>main.py\<close>)\<close>

subsection \<open>\<open>time.ctime\<close>\<close>

definition show_digit :: "nat \<Rightarrow> char" where
  "show_digit n = ''0123456789'' ! (n mod 10)"

fun show_nat :: "nat \<Rightarrow> string" where
  "show_nat n = (if n < 10 then [show_digit n] else show_nat (n div 10) @ [show_digit n])"

definition pad2 :: "char \<Rightarrow> nat \<Rightarrow> string" where
  "pad2 c n = (if n < 10 then [c, show_digit n] else show_nat n)"

text \<open>
  Year, month and day of a day number counted from 1 January 1970 (Gregorian calendar):
  the day of the 400-year era, the year of the era, the day of the year counted from
  1 March, the month counted from March.
\<close>

definition year_of_era :: "nat \<Rightarrow> nat" where
  "year_of_era doe = (doe - doe div 1460 + doe div 36524 - doe div 146096) div 365"

definition day_of_year :: "nat \<Rightarrow> nat \<Rightarrow> nat" where
  "day_of_year doe yoe = doe - (365 * yoe + yoe div 4 - yoe div 100)"

definition civil_of_month :: "nat \<Rightarrow> nat \<Rightarrow> nat \<Rightarrow> nat \<times> nat \<times> nat" where
  "civil_of_month y doy mp =
     (if mp < 10 then (y, mp + 3, doy - (153 * mp + 2) div 5 + 1)
      else (y + 1, mp - 9, doy - (153 * mp + 2) div 5 + 1))"

definition civil_of_year :: "nat \<Rightarrow> nat \<Rightarrow> nat \<Rightarrow> nat \<times> nat \<times> nat" where
  "civil_of_year era doe yoe =
     civil_of_month (yoe + era * 400) (day_of_year doe yoe) ((5 * day_of_year doe yoe + 2) div 153)"

definition civil_from_days :: "nat \<Rightarrow> nat \<times> nat \<times> nat" where
  "civil_from_days days =
     civil_of_year ((days + 719468) div 146097) ((days + 719468) mod 146097)
       (year_of_era ((days + 719468) mod 146097))"

text \<open>
  \<open>time.asctime\<close> of a broken-down time: \<open>Www Mmm dd hh:mm:ss yyyy\<close>, the day of the month
  padded with a space. 1 January 1970 was a Thursday.
\<close>

fun format_time :: "nat \<Rightarrow> nat \<Rightarrow> nat \<times> nat \<times> nat \<Rightarrow> string" where
  "format_time wday secs (y, m, d) =
     [''Sun'', ''Mon'', ''Tue'', ''Wed'', ''Thu'', ''Fri'', ''Sat''] ! wday
     @ '' '' @ [''Jan'', ''Feb'', ''Mar'', ''Apr'', ''May'', ''Jun'',
                ''Jul'', ''Aug'', ''Sep'', ''Oct'', ''Nov'', ''Dec''] ! (m - 1)
     @ '' '' @ pad2 CHR '' '' d
     @ '' '' @ pad2 CHR ''0'' (secs div 3600)
     @ '':'' @ pad2 CHR ''0'' (secs mod 3600 div 60)
     @ '':'' @ pad2 CHR ''0'' (secs mod 60)
     @ '' '' @ show_nat y"

definition asctime :: "nat \<Rightarrow> string" where
  "asctime t = format_time ((t div 86400 + 4) mod 7) (t mod 86400) (civil_from_days (t div 86400))"

text \<open>
  \<open>time.ctime(secs)\<close> is the local time of the host; \<open>tz\<close> is the offset of its zone from
  UTC in seconds.
\<close>

definition ctime :: "int \<Rightarrow> nat \<Rightarrow> string" where
  "ctime tz secs = asctime (nat (int secs + tz))"

subsection \<open>\<open>AiDirState\<close> and \<open>AiDir\<close>\<close>

datatype AiDirState = ACTIVE | READY | ERROR | RECEIVING | HANDLED | INFERRED | UNKNOWN

text \<open>
  The \<open>if\<close>/\<open>elif\<close> chain of \<open>AiDir.__post_init__\<close>, in the source's order. The first
  argument is \<open>self.error_file_path.exists()\<close>, the second \<open>self.path.name\<close>.
\<close>

definition post_init_state :: "bool \<Rightarrow> string \<Rightarrow> AiDirState" where
  "post_init_state error_file_exists name =
     (if error_file_exists then ERROR
      else if startswith (lower name) ''active_'' then ACTIVE
      else if startswith (lower name) ''ready_'' then READY
      else if startswith (lower name) ''error_'' then ERROR
      else if startswith (lower name) ''receiving_'' then RECEIVING
      else if startswith (lower name) ''handled_'' then HANDLED
      else if startswith (lower name) ''inferred_'' then INFERRED
      else UNKNOWN)"

text \<open>The state the scheduler derives for a directory found on disk.\<close>

definition dir_state :: "job_dir \<Rightarrow> AiDirState" where
  "dir_state d = post_init_state (jd_files d ''error.txt'' \<noteq> None) (jd_name d)"

text \<open>
  The watchdog's \<open>AiDir\<close>: \<open>wd_path\<close> is the basename of \<open>self.path\<close> (the parent is always
  the scan directory). What the scheduler reads of its configuration and of its host:
  the name of the per-job configuration file, the dry-run flag, the zone of the clock,
  and which renames and launches the host refuses.
\<close>

record AiDir =
  wd_path :: string
  nicelevel :: "int option"
  last_modified :: "string option"
  wd_valid :: bool
  wd_error :: "string option"
  write_error_to_file :: bool
  wd_state :: AiDirState

record WatchdogConfig =
  ai_config_filename :: string
  dry_run :: bool

record wd_host =
  tz_offset :: int
  rename_refused :: "string \<Rightarrow> string \<Rightarrow> exn option"
  popen_refused :: "string \<Rightarrow> exn option"

definition pre_validate :: "WatchdogConfig \<Rightarrow> job_dir list \<Rightarrow> AiDir \<Rightarrow> AiDir" where
  "pre_validate cfg fs a =
     (case find_dir fs (wd_path a) of
        None \<Rightarrow> a\<lparr>wd_error := Some (''Path does not exist: '' @ wd_path a),
                  wd_valid := False, write_error_to_file := False\<rparr>
      | Some d \<Rightarrow>
          if wd_state a = ERROR then a\<lparr>wd_valid := False\<rparr>
          else if wd_state a = UNKNOWN then a\<lparr>wd_valid := False, write_error_to_file := False\<rparr>
          else if wd_state a = RECEIVING then a\<lparr>wd_valid := False, write_error_to_file := False\<rparr>
          else if jd_files d (ai_config_filename cfg) = None
          then a\<lparr>wd_error := Some ''E2_02 AI config file does not exist.'',
                 wd_valid := False, write_error_to_file := True\<rparr>
          else a\<lparr>wd_valid := True\<rparr>)"

text \<open>\<open>AiDir(f, config=...)\<close>: the defaults of the dataclass, then \<open>__post_init__\<close>.\<close>

definition new_AiDir :: "WatchdogConfig \<Rightarrow> job_dir list \<Rightarrow> job_dir \<Rightarrow> AiDir" where
  "new_AiDir cfg fs d =
     pre_validate cfg fs
       \<lparr>wd_path = jd_name d, nicelevel = None, last_modified = None, wd_valid = False,
        wd_error = None, write_error_to_file = True, wd_state = dir_state d\<rparr>"

text \<open>
  The loop over the lines of the configuration file in \<open>AiDir.load\<close>. \<open>int(...)\<close> raising
  \<open>ValueError\<close> ends the loop inside the \<open>try\<close> and keeps what was read so far; the index
  \<open>[1]\<close> on a line without a double quote raises \<open>IndexError\<close>, which no handler of
  \<open>load\<close> names.
\<close>

fun read_nicelevel :: "string list \<Rightarrow> int option \<Rightarrow> exn + int option" where
  "read_nicelevel [] nl = Inr nl"
| "read_nicelevel (line # lines) nl =
     (if startswith (lower (strip line)) ''nicelevel''
      then (case split CHR 0x22 line of
              p # q # _ \<Rightarrow> (case py_int q of
                              None \<Rightarrow> Inr nl
                            | Some v \<Rightarrow> read_nicelevel lines (Some v))
            | _ \<Rightarrow> Inl IndexError)
      else read_nicelevel lines nl)"

definition load :: "WatchdogConfig \<Rightarrow> int \<Rightarrow> job_dir list \<Rightarrow> AiDir \<Rightarrow> exn + AiDir" where
  "load cfg tz fs a =
     (if \<not> wd_valid a then Inr a
      else (case find_dir fs (wd_path a) of
              None \<Rightarrow> Inl FileNotFoundError
            | Some d \<Rightarrow>
               (case jd_files d (ai_config_filename cfg) of
                  None \<Rightarrow> Inl FileNotFoundError
                | Some lines \<Rightarrow>
                   (case read_nicelevel lines (nicelevel a) of
                      Inl e \<Rightarrow> Inl e
                    | Inr nl \<Rightarrow>
                        Inr (a\<lparr>nicelevel := Some (case nl of None \<Rightarrow> 10 | Some v \<Rightarrow> v),
                                last_modified := Some (ctime tz (jd_mtime d)),
                                wd_valid := True\<rparr>)))))"

text \<open>
  \<open>AiDir.rename\<close>: the three classes its \<open>except\<close> names are \<open>OSError\<close> and two of its
  subclasses. The result is the return value, the directory tree and the object.
\<close>

definition rename :: "wd_host \<Rightarrow> job_dir list \<Rightarrow> AiDir \<Rightarrow> string \<Rightarrow> exn + bool \<times> job_dir list \<times> AiDir" where
  "rename host fs a new_name =
     (case fs_rename (rename_refused host) fs (wd_path a) new_name of
        Inl e \<Rightarrow>
          if is_OSError e
          then Inr (False, fs, a\<lparr>wd_error := Some ''E2_01 Could not rename directory'', wd_state := ERROR\<rparr>)
          else Inl e
      | Inr fs' \<Rightarrow> Inr (True, fs', a\<lparr>wd_path := new_name\<rparr>))"

definition activate :: "wd_host \<Rightarrow> job_dir list \<Rightarrow> AiDir \<Rightarrow> exn + bool \<times> job_dir list \<times> AiDir" where
  "activate host fs a = rename host fs a (''active_'' @ replace ''ready_'' '''' (wd_path a))"

text \<open>
  \<open>AiDir.handle_error\<close>. \<open>write_text(None)\<close> is a \<open>TypeError\<close>. An exception leaves the
  tree as it was when it was raised.
\<close>

definition write_error :: "job_dir list \<Rightarrow> AiDir \<Rightarrow> exn + job_dir list" where
  "write_error fs a =
     (case wd_error a of
        None \<Rightarrow> Inl OtherException
      | Some msg \<Rightarrow> write_text fs (wd_path a) ''error.txt'' msg)"

definition handle_error :: "wd_host \<Rightarrow> job_dir list \<Rightarrow> AiDir \<Rightarrow> exn option \<times> job_dir list \<times> AiDir" where
  "handle_error host fs a =
     (case (if write_error_to_file a then write_error fs a else Inr fs) of
        Inl e \<Rightarrow> (Some e, fs, a)
      | Inr fs1 \<Rightarrow>
         (case rename host fs1 a (''error_'' @ replace ''ready_'' '''' (wd_path a)) of
            Inl e \<Rightarrow> (Some e, fs1, a)
          | Inr (True, fs2, a2) \<Rightarrow> (None, fs2, a2)
          | Inr (False, fs2, a2) \<Rightarrow>
              (case write_error fs2 a2 of
                 Inl e \<Rightarrow> (Some e, fs2, a2)
               | Inr fs3 \<Rightarrow> (None, fs3, a2))))"

subsection \<open>\<open>AiSharedDir\<close>\<close>

record AiSharedDir =
  receiving_dirs :: "AiDir list"
  ready_dirs :: "AiDir list"
  active_dirs :: "AiDir list"
  error_dirs :: "AiDir list"
  handled_dirs :: "AiDir list"
  inferred_dirs :: "AiDir list"
  unknown_dirs :: "AiDir list"
  ready_to_infer :: "AiDir option"

text \<open>\<open>AiSharedDir.scan\<close>: every directory is appended to the list of its state, in order.\<close>

definition scan :: "WatchdogConfig \<Rightarrow> job_dir list \<Rightarrow> AiSharedDir" where
  "scan cfg fs =
     (let ds = map (new_AiDir cfg fs) fs
      in \<lparr>receiving_dirs = filter (\<lambda>a. wd_state a = RECEIVING) ds,
          ready_dirs = filter (\<lambda>a. wd_state a = READY) ds,
          active_dirs = filter (\<lambda>a. wd_state a = ACTIVE) ds,
          error_dirs = filter (\<lambda>a. wd_state a = ERROR) ds,
          handled_dirs = filter (\<lambda>a. wd_state a = HANDLED) ds,
          inferred_dirs = filter (\<lambda>a. wd_state a = INFERRED) ds,
          unknown_dirs = filter (\<lambda>a. wd_state a = UNKNOWN) ds,
          ready_to_infer = None\<rparr>)"

text \<open>
  The loop of \<open>AiSharedDir.load_ready\<close> over \<open>self.ready_dirs\<close>; the accumulator is the
  tree, \<open>really_ready\<close> and \<open>self.error_dirs\<close>.
\<close>

fun load_each ::
  "WatchdogConfig \<Rightarrow> wd_host \<Rightarrow> AiDir list \<Rightarrow> job_dir list \<times> AiDir list \<times> AiDir list
     \<Rightarrow> exn option \<times> job_dir list \<times> AiDir list \<times> AiDir list" where
  "load_each cfg host [] acc = (None, acc)"
| "load_each cfg host (d # ds) (fs, really_ready, errs) =
     (case load cfg (tz_offset host) fs d of
        Inl e \<Rightarrow> (Some e, fs, really_ready, errs)
      | Inr d1 \<Rightarrow>
          if wd_valid d1 \<and> wd_state d1 = READY
          then load_each cfg host ds (fs, really_ready @ [d1], errs)
          else (case handle_error host fs d1 of
                  (Some e, fs1, d2) \<Rightarrow> (Some e, fs1, really_ready, errs)
                | (None, fs1, d2) \<Rightarrow> load_each cfg host ds (fs1, really_ready, errs @ [d2])))"

text \<open>The key of \<open>sorted(self.ready_dirs, key=lambda x: (x.nicelevel, x.last_modified))\<close>.\<close>

definition ready_key :: "AiDir \<Rightarrow> int \<times> string" where
  "ready_key x = (the (nicelevel x), the (last_modified x))"

definition load_ready ::
  "WatchdogConfig \<Rightarrow> wd_host \<Rightarrow> job_dir list \<Rightarrow> AiSharedDir \<Rightarrow> exn option \<times> job_dir list \<times> AiSharedDir" where
  "load_ready cfg host fs sh =
     (case load_each cfg host (ready_dirs sh) (fs, [], error_dirs sh) of
        (Some e, fs1, really_ready, errs) \<Rightarrow> (Some e, fs1, sh\<lparr>error_dirs := errs\<rparr>)
      | (None, fs1, really_ready, errs) \<Rightarrow>
          (None, fs1,
           sh\<lparr>error_dirs := errs, ready_dirs := really_ready,
              ready_to_infer :=
                (if really_ready \<noteq> [] then Some (hd (sort_key ready_key really_ready))
                 else ready_to_infer sh)\<rparr>))"

subsection \<open>\<open>watchdog_worker\<close>\<close>

text \<open>
  One pass of the body of the polling loop: the exception that leaves it (if any), the
  tree afterwards, and the folder handed to the inference script (if any).
\<close>

definition poll_cycle ::
  "WatchdogConfig \<Rightarrow> wd_host \<Rightarrow> job_dir list \<Rightarrow> exn option \<times> job_dir list \<times> string option" where
  "poll_cycle cfg host fs =
     (let d = scan cfg fs
      in if active_dirs d \<noteq> [] then (None, fs, None)
         else if ready_dirs d \<noteq> [] then
           (case load_ready cfg host fs d of
              (Some e, fs1, d1) \<Rightarrow> (Some e, fs1, None)
            | (None, fs1, d1) \<Rightarrow>
               (case ready_to_infer d1 of
                  None \<Rightarrow> (None, fs1, None)
                | Some r \<Rightarrow>
                   (case activate host fs1 r of
                      Inl e \<Rightarrow> (Some e, fs1, None)
                    | Inr (True, fs2, r2) \<Rightarrow>
                        if dry_run cfg then (None, fs2, None)
                        else (case popen_refused host (wd_path r2) of
                                Some e \<Rightarrow> (Some e, fs2, None)
                              | None \<Rightarrow> (None, fs2, Some (wd_path r2)))
                    | Inr (False, fs2, r2) \<Rightarrow>
                        (case handle_error host fs2 r2 of (e, fs3, r3) \<Rightarrow> (e, fs3, None)))))
         else (None, fs, None))"

text \<open>
  \<open>watchdog_worker\<close>: the polling loop runs until the stop event is set, here after
  \<open>n\<close> more passes. Its \<open>try\<close> encloses the whole loop: an exception of a pass is logged
  by the handler after the loop, and the worker returns. The result is that exception (if
  any), the tree, and the folders launched.
\<close>

fun watchdog_worker ::
  "WatchdogConfig \<Rightarrow> wd_host \<Rightarrow> nat \<Rightarrow> job_dir list \<Rightarrow> exn option \<times> job_dir list \<times> string list" where
  "watchdog_worker cfg host 0 fs = (None, fs, [])"
| "watchdog_worker cfg host (Suc n) fs =
     (case poll_cycle cfg host fs of
        (Some e, fs1, launched) \<Rightarrow> (Some e, fs1, [])
      | (None, fs1, launched) \<Rightarrow>
         (case watchdog_worker cfg host n fs1 of
            (e, fs2, ls) \<Rightarrow> (e, fs2, (case launched of None \<Rightarrow> [] | Some l \<Rightarrow> [l]) @ ls)))"

section \<open>Delivery worker (return service \<open>main.py\<close>)\<close>

subsection \<open>Configuration, host and state\<close>

record ReturnserviceConfig =
  rs_ai_config_filename :: string
  error_file :: string
  return_dicom_str :: string
  return_directory_str :: string
  do_archive :: bool
  days_before_deletion :: int

text \<open>
  What the worker does to the world outside the scan directory, in order. A file of the
  job is named by its path below the job folder (\<open>[''dcmoutput'', f]\<close>); a filesystem
  destination by the configured return directory and the patient id, whose join is the
  folder written to; a network destination by address, port and called AE title.
  \<open>Associate\<close> records a call of \<open>ae.associate\<close> and whether an established association
  came back.
\<close>

datatype event =
    Archive "string list"
  | Mkdir string string
  | Copy2 "string list" string string
  | Associate string int string bool
  | CStore string int string "string list"
  | Release string int string
  | Rename string string
  | Rmtree string

text \<open>
  How the host answers each call the worker makes: an exception where one is raised, the
  value otherwise. \<open>c_store_result\<close> is the status data set of \<open>send_c_store\<close>: \<open>None\<close> is
  the empty one, \<open>Some c\<close> one whose \<open>Status\<close> is \<open>c\<close>. \<open>json_truthy\<close> is the truth value
  of \<open>json.loads(s)\<close>, false where it raises.
\<close>

record rs_host =
  patient_id_of :: "string list \<Rightarrow> exn + string"
  return_dir_exists :: "string \<Rightarrow> string \<Rightarrow> bool"
  mkdir_refused :: "string \<Rightarrow> string \<Rightarrow> exn option"
  copy2_refused :: "string list \<Rightarrow> string \<Rightarrow> string \<Rightarrow> exn option"
  associate_result :: "string \<Rightarrow> int \<Rightarrow> string \<Rightarrow> exn + bool"
  dcmread_refused :: "string list \<Rightarrow> exn option"
  c_store_result :: "string \<Rightarrow> int \<Rightarrow> string \<Rightarrow> string list \<Rightarrow> exn + nat option"
  rs_rename_refused :: "string \<Rightarrow> string \<Rightarrow> exn option"
  rmtree_refused :: "string \<Rightarrow> exn option"
  json_truthy :: "string \<Rightarrow> bool"
  archive_exists :: bool
  error_struct_saved :: "string \<Rightarrow> bool"
  adjust_refused :: "string \<Rightarrow> exn option"
  new_sop_uid :: string
  clock :: int

text \<open>
  The return service's \<open>AiDir\<close> (\<open>rs_path\<close> is the basename of \<open>self.path\<close>; the two
  dictionaries are given by their \<open>values()\<close>, in insertion order), together with the scan
  directory and the events so far.
\<close>

record rs_state =
  rs_path :: string
  rs_valid :: bool
  transmission_failed :: bool
  return_dicom_node_dict :: "(string \<rightharpoonup> string) list"
  return_directory_dict :: "(string \<rightharpoonup> string) list"
  error_message :: "string option"
  rs_fs :: "job_dir list"
  rs_trace :: "event list"

definition emit :: "event \<Rightarrow> rs_state \<Rightarrow> rs_state" where
  "emit e st = st\<lparr>rs_trace := rs_trace st @ [e]\<rparr>"

definition set_failed :: "rs_state \<Rightarrow> rs_state" where
  "set_failed st = st\<lparr>transmission_failed := True\<rparr>"

text \<open>A \<open>for\<close> loop whose body may raise: the exception ends the loop.\<close>

fun foreach :: "('a \<Rightarrow> 's \<Rightarrow> exn option \<times> 's) \<Rightarrow> 'a list \<Rightarrow> 's \<Rightarrow> exn option \<times> 's" where
  "foreach body [] st = (None, st)"
| "foreach body (x # xs) st =
     (case body x st of
        (Some e, st1) \<Rightarrow> (Some e, st1)
      | (None, st1) \<Rightarrow> foreach body xs st1)"

text \<open>\<open>os.listdir\<close> of a sub-folder of the job, and the \<open>.dcm\<close> files of a listing.\<close>

definition listdir :: "rs_state \<Rightarrow> string \<Rightarrow> exn + string list" where
  "listdir st sub =
     (case find_dir (rs_fs st) (rs_path st) of
        None \<Rightarrow> Inl FileNotFoundError
      | Some d \<Rightarrow> (case jd_dirs d sub of None \<Rightarrow> Inl FileNotFoundError | Some names \<Rightarrow> Inr names))"

definition dcm_files :: "string list \<Rightarrow> string list" where
  "dcm_files names = filter (\<lambda>f. endswith f ''.dcm'') names"

subsection \<open>Renaming and deleting the job folder\<close>

text \<open>
  The name \<open>renaming_to_handled_error\<close> renames to; \<open>None\<close> where it returns without
  renaming.
\<close>

definition handled_error_name :: "string \<Rightarrow> string option" where
  "handled_error_name name =
     (if startswith (stem name) ''handled_error'' then None
      else if startswith (stem name) ''inferred''
      then Some (''handled_error_'' @ replace ''inferred_'' '''' name)
      else Some (''handled_error_'' @ replace ''error_'' '''' name))"

text \<open>Every exception of the rename is caught and logged; the path changes on success only.\<close>

definition renaming_to_handled_error :: "rs_host \<Rightarrow> rs_state \<Rightarrow> rs_state" where
  "renaming_to_handled_error host st =
     (case handled_error_name (rs_path st) of
        None \<Rightarrow> st
      | Some new_name \<Rightarrow>
         (case fs_rename (rs_rename_refused host) (rs_fs st) (rs_path st) new_name of
            Inl e \<Rightarrow> emit (Rename (rs_path st) new_name) st
          | Inr fs1 \<Rightarrow> (emit (Rename (rs_path st) new_name) st)\<lparr>rs_fs := fs1, rs_path := new_name\<rparr>))"

text \<open>\<open>shutil.rmtree\<close> of a folder of the scan directory.\<close>

definition fs_rmtree :: "(string \<Rightarrow> exn option) \<Rightarrow> job_dir list \<Rightarrow> string \<Rightarrow> exn + job_dir list" where
  "fs_rmtree refuses fs name =
     (if find_dir fs name = None then Inl FileNotFoundError
      else (case refuses name of
              Some e \<Rightarrow> Inl e
            | None \<Rightarrow> Inr (filter (\<lambda>d. jd_name d \<noteq> name) fs)))"

definition delete_sent_folder :: "rs_host \<Rightarrow> rs_state \<Rightarrow> rs_state" where
  "delete_sent_folder host st =
     (case fs_rmtree (rmtree_refused host) (rs_fs st) (rs_path st) of
        Inl e \<Rightarrow> emit (Rmtree (rs_path st)) st
      | Inr fs1 \<Rightarrow> (emit (Rmtree (rs_path st)) st)\<lparr>rs_fs := fs1\<rparr>)"

subsection \<open>Filesystem destinations\<close>

text \<open>\<open>copy_file_to_dir\<close>: whatever \<open>shutil.copy2\<close> raises is caught and sets the flag.\<close>

definition copy_file_to_dir :: "rs_host \<Rightarrow> string list \<Rightarrow> string \<Rightarrow> string \<Rightarrow> rs_state \<Rightarrow> rs_state" where
  "copy_file_to_dir host file_path base pid st =
     (case copy2_refused host file_path base pid of
        None \<Rightarrow> emit (Copy2 file_path base pid) st
      | Some e \<Rightarrow> set_failed (emit (Copy2 file_path base pid) st))"

definition copy_scan_to_dir :: "rs_host \<Rightarrow> string \<Rightarrow> string \<Rightarrow> rs_state \<Rightarrow> rs_state" where
  "copy_scan_to_dir host base pid st =
     (case listdir st ''dcminput'' of
        Inl e \<Rightarrow> set_failed st
      | Inr names \<Rightarrow>
          foldl (\<lambda>s dcm. copy_file_to_dir host [''dcminput'', dcm] base pid s) st (dcm_files names))"

text \<open>The \<open>try\<close> around the \<open>SendScan\<close> entry: a missing key or bad JSON gives \<open>False\<close>.\<close>

definition send_scan_flag :: "rs_host \<Rightarrow> (string \<rightharpoonup> string) \<Rightarrow> string \<Rightarrow> bool" where
  "send_scan_flag host d key = (case d key of None \<Rightarrow> False | Some v \<Rightarrow> json_truthy host (lower v))"

text \<open>
  The body of the first loop of \<open>send_struct_to_all_returns\<close>. Only \<open>FileNotFoundError\<close>
  of \<open>os.mkdir\<close> has a handler; \<open>dcmread\<close>, \<open>PatientID\<close> and the dictionary index have none.
\<close>

definition after_mkdir ::
  "rs_host \<Rightarrow> ReturnserviceConfig \<Rightarrow> string list \<Rightarrow> (string \<rightharpoonup> string) \<Rightarrow> string \<Rightarrow> string \<Rightarrow> rs_state \<Rightarrow> rs_state" where
  "after_mkdir host cfg struct_path d base pid st =
     (let st1 = copy_file_to_dir host struct_path base pid st
      in if send_scan_flag host d (return_directory_str cfg @ ''SendScan'')
         then copy_scan_to_dir host base pid st1 else st1)"

definition send_to_directory ::
  "rs_host \<Rightarrow> ReturnserviceConfig \<Rightarrow> string list \<Rightarrow> (string \<rightharpoonup> string) \<Rightarrow> rs_state \<Rightarrow> exn option \<times> rs_state" where
  "send_to_directory host cfg struct_path d st =
     (case patient_id_of host struct_path of
        Inl e \<Rightarrow> (Some e, st)
      | Inr pid \<Rightarrow>
         (case d (return_directory_str cfg) of
            None \<Rightarrow> (Some KeyError, st)
          | Some base \<Rightarrow>
              if return_dir_exists host base pid
              then (None, after_mkdir host cfg struct_path d base pid st)
              else (case mkdir_refused host base pid of
                      None \<Rightarrow> (None, after_mkdir host cfg struct_path d base pid (emit (Mkdir base pid) st))
                    | Some e \<Rightarrow>
                        if e = FileNotFoundError then (None, set_failed (emit (Mkdir base pid) st))
                        else (Some e, emit (Mkdir base pid) st))))"

subsection \<open>Network destinations\<close>

text \<open>
  The address read inside the \<open>try\<close> of \<open>send_struct\<close> and \<open>send_scan\<close>: a missing key or a
  port that is no integer is an exception there, here \<open>None\<close>. \<open>send_struct\<close> builds the
  keys from \<open>self.return_dicom_str\<close>; \<open>send_scan\<close> spells them out.
\<close>

definition peer_of :: "string \<Rightarrow> (string \<rightharpoonup> string) \<Rightarrow> (string \<times> int \<times> string) option" where
  "peer_of prefix node =
     (case node (prefix @ ''IP'') of
        None \<Rightarrow> None
      | Some ip \<Rightarrow>
         (case node (prefix @ ''Port'') of
            None \<Rightarrow> None
          | Some p \<Rightarrow>
             (case py_int p of
                None \<Rightarrow> None
              | Some port \<Rightarrow>
                 (case node (prefix @ ''AET'') of
                    None \<Rightarrow> None
                  | Some aet \<Rightarrow> Some (ip, port, aet)))))"

text \<open>
  \<open>send_struct\<close>. The \<open>try\<close> ends before \<open>assoc.is_established\<close> is read; \<open>IOError\<close> of
  \<open>dcmread\<close> is caught; \<open>send_c_store\<close> stands outside every \<open>try\<close>.
\<close>

definition send_struct ::
  "rs_host \<Rightarrow> ReturnserviceConfig \<Rightarrow> string list \<Rightarrow> (string \<rightharpoonup> string) \<Rightarrow> rs_state \<Rightarrow> exn option \<times> rs_state" where
  "send_struct host cfg struct_path node st =
     (case peer_of (return_dicom_str cfg) node of
        None \<Rightarrow> (None, set_failed st)
      | Some (ip, port, aet) \<Rightarrow>
         (case associate_result host ip port aet of
            Inl e \<Rightarrow> (None, set_failed (emit (Associate ip port aet False) st))
          | Inr False \<Rightarrow> (None, set_failed (emit (Associate ip port aet False) st))
          | Inr True \<Rightarrow>
             (case dcmread_refused host struct_path of
                Some e \<Rightarrow>
                  if is_OSError e
                  then (None, set_failed (emit (Release ip port aet) (emit (Associate ip port aet True) st)))
                  else (Some e, emit (Associate ip port aet True) st)
              | None \<Rightarrow>
                 (case c_store_result host ip port aet struct_path of
                    Inl e \<Rightarrow> (Some e, emit (CStore ip port aet struct_path) (emit (Associate ip port aet True) st))
                  | Inr (Some status) \<Rightarrow>
                      (None, emit (Release ip port aet)
                               (emit (CStore ip port aet struct_path) (emit (Associate ip port aet True) st)))
                  | Inr None \<Rightarrow>
                      (None, set_failed (emit (Release ip port aet)
                               (emit (CStore ip port aet struct_path) (emit (Associate ip port aet True) st))))))))"

text \<open>
  The body of the loop of \<open>send_scan\<close> over the scan images: \<open>dcmread\<close> stands outside the
  \<open>try\<close>, \<open>send_c_store\<close> inside.
\<close>

definition send_image ::
  "rs_host \<Rightarrow> string \<Rightarrow> int \<Rightarrow> string \<Rightarrow> string \<Rightarrow> rs_state \<Rightarrow> exn option \<times> rs_state" where
  "send_image host ip port aet dcm st =
     (case dcmread_refused host [''dcminput'', dcm] of
        Some e \<Rightarrow> (Some e, st)
      | None \<Rightarrow>
         (case c_store_result host ip port aet [''dcminput'', dcm] of
            Inr (Some status) \<Rightarrow> (None, emit (CStore ip port aet [''dcminput'', dcm]) st)
          | _ \<Rightarrow> (None, set_failed (emit (CStore ip port aet [''dcminput'', dcm]) st))))"

definition send_scan :: "rs_host \<Rightarrow> (string \<rightharpoonup> string) \<Rightarrow> rs_state \<Rightarrow> exn option \<times> rs_state" where
  "send_scan host node st =
     (case peer_of ''ReturnDicomNode'' node of
        None \<Rightarrow> (None, set_failed st)
      | Some (ip, port, aet) \<Rightarrow>
         (case associate_result host ip port aet of
            Inl e \<Rightarrow> (None, set_failed (emit (Associate ip port aet False) st))
          | Inr False \<Rightarrow> (None, set_failed (emit (Associate ip port aet False) st))
          | Inr True \<Rightarrow>
             (case listdir st ''dcminput'' of
                Inl e \<Rightarrow> (None, set_failed (emit (Release ip port aet) (emit (Associate ip port aet True) st)))
              | Inr names \<Rightarrow>
                 (case foreach (send_image host ip port aet) (dcm_files names)
                         (emit (Associate ip port aet True) st) of
                    (Some e, st1) \<Rightarrow> (Some e, st1)
                  | (None, st1) \<Rightarrow> (None, emit (Release ip port aet) st1)))))"

text \<open>The body of the second loop of \<open>send_struct_to_all_returns\<close>.\<close>

definition send_to_node ::
  "rs_host \<Rightarrow> ReturnserviceConfig \<Rightarrow> string list \<Rightarrow> (string \<rightharpoonup> string) \<Rightarrow> rs_state \<Rightarrow> exn option \<times> rs_state" where
  "send_to_node host cfg struct_path node st =
     (case send_struct host cfg struct_path node st of
        (Some e, st1) \<Rightarrow> (Some e, st1)
      | (None, st1) \<Rightarrow>
          if send_scan_flag host node (return_dicom_str cfg @ ''SendScan'')
          then send_scan host node st1 else (None, st1))"

subsection \<open>The flows of a job\<close>

definition send_struct_to_all_returns ::
  "rs_host \<Rightarrow> ReturnserviceConfig \<Rightarrow> string list \<Rightarrow> bool \<Rightarrow> rs_state \<Rightarrow> exn option \<times> rs_state" where
  "send_struct_to_all_returns host cfg struct_path error st =
     (case foreach (send_to_directory host cfg struct_path) (return_directory_dict st) st of
        (Some e, st1) \<Rightarrow> (Some e, st1)
      | (None, st1) \<Rightarrow>
         (case foreach (send_to_node host cfg struct_path) (return_dicom_node_dict st1) st1 of
            (Some e, st2) \<Rightarrow> (Some e, st2)
          | (None, st2) \<Rightarrow>
              if \<not> error
              then (if transmission_failed st2 then (None, renaming_to_handled_error host st2)
                    else (None, delete_sent_folder host st2))
              else (None, st2)))"

text \<open>
  \<open>create_error_struct\<close> writes \<open>rtstruct_temp.dcm\<close> into the job folder, or gives up (its
  exceptions are caught); \<open>adjust_rtstruct_dicom_information\<close> saves the file under its new
  name and removes the old one, with no handler for what \<open>dcmread\<close>, \<open>save_as\<close> and
  \<open>os.remove\<close> raise.
\<close>

definition put_file :: "string \<Rightarrow> string \<Rightarrow> rs_state \<Rightarrow> rs_state" where
  "put_file dir file st =
     st\<lparr>rs_fs := map (\<lambda>d. if jd_name d = dir then d\<lparr>jd_files := (jd_files d)(file \<mapsto> [])\<rparr> else d) (rs_fs st)\<rparr>"

definition remove_file :: "string \<Rightarrow> string \<Rightarrow> rs_state \<Rightarrow> rs_state" where
  "remove_file dir file st =
     st\<lparr>rs_fs := map (\<lambda>d. if jd_name d = dir then d\<lparr>jd_files := (jd_files d)(file := None)\<rparr> else d) (rs_fs st)\<rparr>"

definition error_struct_name :: "rs_host \<Rightarrow> string" where
  "error_struct_name host = ''rtstruct_1.2.826.0.1.3680043.9.7225.'' @ new_sop_uid host @ ''.dcm''"

definition rs_handle_error :: "rs_host \<Rightarrow> ReturnserviceConfig \<Rightarrow> rs_state \<Rightarrow> exn option \<times> rs_state" where
  "rs_handle_error host cfg st =
     (case listdir st ''dcminput'' of
        Inl e \<Rightarrow> (None, renaming_to_handled_error host st)
      | Inr names \<Rightarrow>
          if error_struct_saved host (rs_path st)
          then (case adjust_refused host (rs_path st) of
                  Some e \<Rightarrow> (Some e, put_file (rs_path st) ''rtstruct_temp.dcm'' st)
                | None \<Rightarrow>
                   (case send_struct_to_all_returns host cfg [error_struct_name host] True
                           (remove_file (rs_path st) ''rtstruct_temp.dcm''
                              (put_file (rs_path st) (error_struct_name host)
                                 (put_file (rs_path st) ''rtstruct_temp.dcm'' st))) of
                      (Some e, st1) \<Rightarrow> (Some e, st1)
                    | (None, st1) \<Rightarrow> (None, renaming_to_handled_error host st1)))
          else (None, renaming_to_handled_error host st))"

definition archive_struct :: "rs_host \<Rightarrow> ReturnserviceConfig \<Rightarrow> string list \<Rightarrow> rs_state \<Rightarrow> rs_state" where
  "archive_struct host cfg struct_path st =
     (if do_archive cfg \<and> archive_exists host then emit (Archive struct_path) st else st)"

definition initiate_sending_struct :: "rs_host \<Rightarrow> ReturnserviceConfig \<Rightarrow> rs_state \<Rightarrow> exn option \<times> rs_state" where
  "initiate_sending_struct host cfg st =
     (case listdir st ''dcmoutput'' of
        Inl e \<Rightarrow>
          rs_handle_error host cfg
            (st\<lparr>error_message := Some ''ERROR 4.01 No RTStruct generated from inference''\<rparr>)
      | Inr names \<Rightarrow>
         (case dcm_files names of
            [struct] \<Rightarrow>
              send_struct_to_all_returns host cfg [''dcmoutput'', struct] False
                (archive_struct host cfg [''dcmoutput'', struct] st)
          | [] \<Rightarrow>
              rs_handle_error host cfg
                (st\<lparr>error_message := Some ''ERROR 4.01 No RTStruct found after inference''\<rparr>)
          | _ \<Rightarrow>
              rs_handle_error host cfg
                (st\<lparr>error_message := Some ''ERROR 4.02 Too many RTStructs found after inference''\<rparr>)))"

subsection \<open>Reading the per-job configuration (\<open>AiDir.load\<close>, \<open>get_all_returns\<close>)\<close>

text \<open>\<open>s.split(c, 1)[1]\<close>: what follows the first \<open>c\<close>; \<open>None\<close> is the \<open>IndexError\<close>.\<close>

definition after_first :: "char \<Rightarrow> string \<Rightarrow> string option" where
  "after_first c s = (case dropWhile (\<lambda>x. x \<noteq> c) s of [] \<Rightarrow> None | _ # r \<Rightarrow> Some r)"

definition parse_string_for_variable_name :: "string \<Rightarrow> string \<times> string" where
  "parse_string_for_variable_name input_string =
     (let line_name = hd (split CHR '':'' (strip input_string))
      in (last (split CHR ''_'' line_name), hd (split CHR ''_'' line_name)))"

definition parse_string_for_value :: "string \<Rightarrow> exn + string" where
  "parse_string_for_value input_string =
     (case after_first CHR '':'' input_string of
        None \<Rightarrow> Inl IndexError
      | Some v \<Rightarrow> Inr (strip (replace [CHR 0x22] '''' v)))"

text \<open>\<open>dict[number][value] = v\<close>, creating the inner dictionary where it is missing.\<close>

fun dict_set ::
  "string \<Rightarrow> string \<Rightarrow> string \<Rightarrow> (string \<times> (string \<rightharpoonup> string)) list \<Rightarrow> (string \<times> (string \<rightharpoonup> string)) list" where
  "dict_set number val v [] = [(number, [val \<mapsto> v])]"
| "dict_set number val v ((k, d) # rest) =
     (if k = number then (k, d(val \<mapsto> v)) # rest else (k, d) # dict_set number val v rest)"

fun get_all_returns ::
  "ReturnserviceConfig \<Rightarrow> string list
     \<Rightarrow> (string \<times> (string \<rightharpoonup> string)) list \<times> (string \<times> (string \<rightharpoonup> string)) list
     \<Rightarrow> exn + (string \<times> (string \<rightharpoonup> string)) list \<times> (string \<times> (string \<rightharpoonup> string)) list" where
  "get_all_returns cfg [] acc = Inr acc"
| "get_all_returns cfg (line # lines) (nodes, dirs) =
     (if startswith line (return_dicom_str cfg)
      then (case parse_string_for_value line of
              Inl e \<Rightarrow> Inl e
            | Inr v \<Rightarrow>
                get_all_returns cfg lines
                  (dict_set (fst (parse_string_for_variable_name line))
                     (snd (parse_string_for_variable_name line)) v nodes, dirs))
      else if startswith line (return_directory_str cfg)
      then (case parse_string_for_value line of
              Inl e \<Rightarrow> Inl e
            | Inr v \<Rightarrow>
                get_all_returns cfg lines
                  (nodes, dict_set (fst (parse_string_for_variable_name line))
                            (snd (parse_string_for_variable_name line)) v dirs))
      else get_all_returns cfg lines (nodes, dirs))"

definition rs_load :: "rs_host \<Rightarrow> ReturnserviceConfig \<Rightarrow> rs_state \<Rightarrow> exn option \<times> rs_state" where
  "rs_load host cfg st =
     (case find_dir (rs_fs st) (rs_path st) of
        None \<Rightarrow> (None, st\<lparr>rs_valid := False\<rparr>)
      | Some d \<Rightarrow>
         (case jd_files d (rs_ai_config_filename cfg) of
            None \<Rightarrow> (None, (renaming_to_handled_error host st)\<lparr>rs_valid := False\<rparr>)
          | Some lines \<Rightarrow>
             (case get_all_returns cfg lines ([], []) of
                Inl e \<Rightarrow> (Some e, st)
              | Inr (nodes, dirs) \<Rightarrow>
                  if nodes = [] \<and> dirs = []
                  then (None, (renaming_to_handled_error host
                                 (st\<lparr>return_dicom_node_dict := [], return_directory_dict := []\<rparr>))
                               \<lparr>rs_valid := False\<rparr>)
                  else (None, st\<lparr>return_dicom_node_dict := map snd nodes,
                                  return_directory_dict := map snd dirs, rs_valid := True\<rparr>))))"

text \<open>\<open>set_error_message\<close>: the first line of the error file, or the rename.\<close>

definition set_error_message :: "rs_host \<Rightarrow> ReturnserviceConfig \<Rightarrow> rs_state \<Rightarrow> bool \<times> rs_state" where
  "set_error_message host cfg st =
     (case find_dir (rs_fs st) (rs_path st) of
        None \<Rightarrow> (False, renaming_to_handled_error host st)
      | Some d \<Rightarrow>
         (case jd_files d (error_file cfg) of
            Some (l # ls) \<Rightarrow> (True, st\<lparr>error_message := Some l\<rparr>)
          | _ \<Rightarrow> (False, renaming_to_handled_error host st)))"

subsection \<open>\<open>AiSharedDir.scan_directory\<close> and the worker\<close>

definition new_rs_AiDir :: "string \<Rightarrow> job_dir list \<Rightarrow> event list \<Rightarrow> rs_state" where
  "new_rs_AiDir name fs tr =
     \<lparr>rs_path = name, rs_valid = False, transmission_failed = False,
      return_dicom_node_dict = [], return_directory_dict = [], error_message = None,
      rs_fs = fs, rs_trace = tr\<rparr>"

text \<open>The inferred flow and the error flow of one folder.\<close>

definition inferred_flow :: "rs_host \<Rightarrow> ReturnserviceConfig \<Rightarrow> rs_state \<Rightarrow> exn option \<times> rs_state" where
  "inferred_flow host cfg st =
     (case rs_load host cfg st of
        (Some e, st1) \<Rightarrow> (Some e, st1)
      | (None, st1) \<Rightarrow> if rs_valid st1 then initiate_sending_struct host cfg st1 else (None, st1))"

definition error_flow :: "rs_host \<Rightarrow> ReturnserviceConfig \<Rightarrow> rs_state \<Rightarrow> exn option \<times> rs_state" where
  "error_flow host cfg st =
     (case rs_load host cfg st of
        (Some e, st1) \<Rightarrow> (Some e, st1)
      | (None, st1) \<Rightarrow>
          if rs_valid st1
          then (case set_error_message host cfg st1 of
                  (True, st2) \<Rightarrow> rs_handle_error host cfg st2
                | (False, st2) \<Rightarrow> (None, st2))
          else (None, st1))"

text \<open>
  \<open>delete_old_folder\<close>: \<open>os.stat\<close> has no handler, \<open>rmtree\<close> has. The age in days exceeds
  the limit when the age in seconds exceeds 86400 times the limit.
\<close>

definition delete_old_folder ::
  "rs_host \<Rightarrow> ReturnserviceConfig \<Rightarrow> string \<Rightarrow> job_dir list \<times> event list \<Rightarrow> exn option \<times> job_dir list \<times> event list" where
  "delete_old_folder host cfg name w =
     (case find_dir (fst w) name of
        None \<Rightarrow> (Some FileNotFoundError, w)
      | Some d \<Rightarrow>
          if clock host - int (jd_mtime d) > 86400 * days_before_deletion cfg
          then (case fs_rmtree (rmtree_refused host) (fst w) name of
                  Inl e \<Rightarrow> (None, fst w, snd w @ [Rmtree name])
                | Inr fs1 \<Rightarrow> (None, fs1, snd w @ [Rmtree name]))
          else (None, w))"

text \<open>The body of the loop of \<open>scan_directory\<close>: three \<open>if\<close>s on the name found by \<open>iterdir\<close>.\<close>

definition scan_folder ::
  "rs_host \<Rightarrow> ReturnserviceConfig \<Rightarrow> string \<Rightarrow> job_dir list \<times> event list \<Rightarrow> exn option \<times> job_dir list \<times> event list" where
  "scan_folder host cfg name w =
     (case (if startswith (lower name) ''inferred_''
            then (case inferred_flow host cfg (new_rs_AiDir name (fst w) (snd w)) of
                    (e, st) \<Rightarrow> (e, rs_fs st, rs_trace st))
            else (None, w)) of
        (Some e, w1) \<Rightarrow> (Some e, w1)
      | (None, w1) \<Rightarrow>
         (case (if startswith (lower name) ''error_''
                then (case error_flow host cfg (new_rs_AiDir name (fst w1) (snd w1)) of
                        (e, st) \<Rightarrow> (e, rs_fs st, rs_trace st))
                else (None, w1)) of
            (Some e, w2) \<Rightarrow> (Some e, w2)
          | (None, w2) \<Rightarrow>
              if startswith (lower name) ''handled_error'' then delete_old_folder host cfg name w2
              else (None, w2)))"

definition scan_directory ::
  "rs_host \<Rightarrow> ReturnserviceConfig \<Rightarrow> job_dir list \<times> event list \<Rightarrow> exn option \<times> job_dir list \<times> event list" where
  "scan_directory host cfg w = foreach (scan_folder host cfg) (map jd_name (fst w)) w"

text \<open>
  \<open>returnservice_worker\<close>: as in the scheduler, the \<open>try\<close> encloses the polling loop, so
  an exception of a scan ends the loop; \<open>n\<close> is the number of scans before the stop event.
\<close>

fun returnservice_worker ::
  "rs_host \<Rightarrow> ReturnserviceConfig \<Rightarrow> nat \<Rightarrow> job_dir list \<times> event list \<Rightarrow> exn option \<times> job_dir list \<times> event list" where
  "returnservice_worker host cfg 0 w = (None, w)"
| "returnservice_worker host cfg (Suc n) w =
     (case scan_directory host cfg w of
        (Some e, w1) \<Rightarrow> (Some e, w1)
      | (None, w1) \<Rightarrow> returnservice_worker host cfg n w1)"

subsection \<open>Masking a destination in the log (\<open>censor_pt_id\<close>)\<close>

definition censor_pt_id :: "pure_path \<Rightarrow> string" where
  "censor_pt_id return_dir =
     (let return_dir_namev1 = path_str return_dir;
          return_dir_name =
            slice_to return_dir_namev1
              (int (length return_dir_namev1) - int (length (path_name return_dir)) div 2)
      in return_dir_name @ replicate (length return_dir_namev1 - length return_dir_name) CHR ''*'')"

section \<open>Process supervisor (the \<open>__main__\<close> loop of both daemons)\<close>






section \<open>Concrete hosts and jobs\<close>

text \<open>
  Inputs on which the definitions above are evaluated below: a scheduler configuration,
  a host on UTC that refuses nothing, and a ready job with the lines of its
  configuration file.
\<close>

definition wd_cfg :: WatchdogConfig where
  "wd_cfg = \<lparr>ai_config_filename = ''aiconfig.txt'', dry_run = False\<rparr>"

definition utc_host :: wd_host where
  "utc_host = \<lparr>tz_offset = 0, rename_refused = (\<lambda>old new. None), popen_refused = (\<lambda>folder. None)\<rparr>"

definition ready_job :: "string \<Rightarrow> string list \<Rightarrow> nat \<Rightarrow> job_dir" where
  "ready_job name lines t =
     \<lparr>jd_name = name, jd_files = [''aiconfig.txt'' \<mapsto> lines], jd_dirs = Map.empty, jd_mtime = t\<rparr>"

text \<open>
  For the delivery worker: its configuration; a host on which every call succeeds (no
  destination folder exists yet, every association is established, every store answers
  with status 0); an inferred job with its result artifacts and scan images; and the
  worker's object for it after \<open>load\<close>, with the given destinations.
\<close>

definition rs_cfg :: ReturnserviceConfig where
  "rs_cfg =
     \<lparr>rs_ai_config_filename = ''aiconfig.txt'', error_file = ''error.txt'',
      return_dicom_str = ''ReturnDicomNode'', return_directory_str = ''ReturnDirectory'',
      do_archive = False, days_before_deletion = 30\<rparr>"

definition ok_host :: rs_host where
  "ok_host =
     \<lparr>patient_id_of = (\<lambda>file. Inr ''0101701234''),
      return_dir_exists = (\<lambda>base pid. False),
      mkdir_refused = (\<lambda>base pid. None),
      copy2_refused = (\<lambda>file base pid. None),
      associate_result = (\<lambda>ip port aet. Inr True),
      dcmread_refused = (\<lambda>file. None),
      c_store_result = (\<lambda>ip port aet file. Inr (Some 0)),
      rs_rename_refused = (\<lambda>old new. None),
      rmtree_refused = (\<lambda>name. None),
      json_truthy = (\<lambda>s. s = ''true''),
      archive_exists = False,
      error_struct_saved = (\<lambda>name. True),
      adjust_refused = (\<lambda>name. None),
      new_sop_uid = ''1234'',
      clock = 0\<rparr>"

definition inferred_job :: "string \<Rightarrow> string list \<Rightarrow> string list \<Rightarrow> job_dir" where
  "inferred_job name artifacts images =
     \<lparr>jd_name = name, jd_files = [''aiconfig.txt'' \<mapsto> []],
      jd_dirs = [''dcmoutput'' \<mapsto> artifacts, ''dcminput'' \<mapsto> images], jd_mtime = 0\<rparr>"

definition loaded ::
  "job_dir \<Rightarrow> (string \<rightharpoonup> string) list \<Rightarrow> (string \<rightharpoonup> string) list \<Rightarrow> rs_state" where
  "loaded d dirs nodes =
     \<lparr>rs_path = jd_name d, rs_valid = True, transmission_failed = False,
      return_dicom_node_dict = nodes, return_directory_dict = dirs, error_message = None,
      rs_fs = [d], rs_trace = []\<rparr>"

definition share :: "string \<Rightarrow> string \<rightharpoonup> string" where
  "share base = [''ReturnDirectory'' \<mapsto> base]"

definition pacs :: "string \<Rightarrow> string \<Rightarrow> string \<rightharpoonup> string" where
  "pacs ip flag =
     [''ReturnDicomNodeIP'' \<mapsto> ip, ''ReturnDicomNodePort'' \<mapsto> ''104'',
      ''ReturnDicomNodeAET'' \<mapsto> ''PACS'', ''ReturnDicomNodeSendScan'' \<mapsto> flag]"



text \<open>An inferred job as found on disk, with the lines of its configuration file.\<close>

definition configured_job :: "string \<Rightarrow> string list \<Rightarrow> string list \<Rightarrow> string list \<Rightarrow> job_dir" where
  "configured_job name lines artifacts images =
     \<lparr>jd_name = name, jd_files = [''aiconfig.txt'' \<mapsto> lines],
      jd_dirs = [''dcmoutput'' \<mapsto> artifacts, ''dcminput'' \<mapsto> images], jd_mtime = 0\<rparr>"




section \<open>Facts about strings and names\<close>

lemma startswith_first_char:
  "startswith s (c # p) \<Longrightarrow> startswith s (c' # p') \<Longrightarrow> c = c'"
  by (cases s) (auto simp: startswith_def)








text \<open>Unfolding sets for evaluating the definitions on concrete inputs.\<close>

lemmas str_eval =
  startswith_def endswith_def lower_def lower_char_def strip_def is_space_def py_int_def
  digit_val_def digits_value_def

lemmas ctime_eval =
  ctime_def asctime_def civil_from_days_def civil_of_year_def civil_of_month_def
  day_of_year_def year_of_era_def pad2_def show_digit_def

lemmas wd_eval =
  wd_cfg_def utc_host_def ready_job_def new_AiDir_def pre_validate_def dir_state_def
  post_init_state_def find_dir_def load_def scan_def load_ready_def poll_cycle_def
  activate_def rename_def fs_rename_def handle_error_def write_error_def write_text_def
  ready_key_def is_OSError_def

lemmas rs_eval =
  rs_cfg_def ok_host_def inferred_job_def loaded_def share_def pacs_def
  emit_def set_failed_def listdir_def dcm_files_def find_dir_def
  renaming_to_handled_error_def handled_error_name_def stem_def fs_rename_def fs_rmtree_def
  delete_sent_folder_def copy_file_to_dir_def copy_scan_to_dir_def send_scan_flag_def
  after_mkdir_def send_to_directory_def peer_of_def send_struct_def send_image_def send_scan_def
  send_to_node_def send_struct_to_all_returns_def put_file_def remove_file_def error_struct_name_def
  rs_handle_error_def archive_struct_def initiate_sending_struct_def is_OSError_def

lemmas scan_eval =
  configured_job_def after_first_def parse_string_for_variable_name_def
  parse_string_for_value_def rs_load_def set_error_message_def new_rs_AiDir_def
  inferred_flow_def error_flow_def delete_old_folder_def scan_folder_def scan_directory_def

section \<open>What the fan-out leaves alone\<close>

















section \<open>Renaming and removing a job folder\<close>











section \<open>Which files the fan-out sends\<close>



















section \<open>The classifier\<close>

text \<open>
  Claim C5. The state derived by the scheduler's classifier depends only on the directory
  name and on whether the error-marker file exists: two directories that agree on both
  get the same state, whatever their files contain. With the marker the state is error;
  without it the prefixes \<open>ready_\<close>, \<open>active_\<close>, \<open>error_\<close>, \<open>receiving_\<close>, \<open>handled_\<close>
  and \<open>inferred_\<close>, compared after lower-casing the name, give their states, and any other
  name gives unknown.
\<close>

theorem classification_pure:
  "(jd_name d = jd_name d' \<and> (jd_files d ''error.txt'' = None) = (jd_files d' ''error.txt'' = None)
      \<longrightarrow> dir_state d = dir_state d')
   \<and> dir_state d =
      (if jd_files d ''error.txt'' \<noteq> None then ERROR
       else if startswith (lower (jd_name d)) ''ready_'' then READY
       else if startswith (lower (jd_name d)) ''active_'' then ACTIVE
       else if startswith (lower (jd_name d)) ''error_'' then ERROR
       else if startswith (lower (jd_name d)) ''receiving_'' then RECEIVING
       else if startswith (lower (jd_name d)) ''handled_'' then HANDLED
       else if startswith (lower (jd_name d)) ''inferred_'' then INFERRED
       else UNKNOWN)"
proof -
  have excl: "\<not> (startswith (lower (jd_name d)) ''ready_'' \<and> startswith (lower (jd_name d)) ''active_'')"
    by (auto dest: startswith_first_char)
  show ?thesis
    using excl by (simp add: dir_state_def post_init_state_def)
qed

theorem classification_pure_witness:
  "dir_state \<lparr>jd_name = ''Ready_A'', jd_files = [''aiconfig.txt'' \<mapsto> [''x'']], jd_dirs = Map.empty, jd_mtime = 5\<rparr>
     = dir_state \<lparr>jd_name = ''Ready_A'', jd_files = Map.empty, jd_dirs = Map.empty, jd_mtime = 9\<rparr>
   \<and> dir_state \<lparr>jd_name = ''Ready_A'', jd_files = [''aiconfig.txt'' \<mapsto> [''x'']], jd_dirs = Map.empty, jd_mtime = 5\<rparr>
     = READY"
proof -
  let ?d = "\<lparr>jd_name = ''Ready_A'', jd_files = [''aiconfig.txt'' \<mapsto> [''x'']], jd_dirs = Map.empty, jd_mtime = 5\<rparr>"
  let ?d' = "\<lparr>jd_name = ''Ready_A'', jd_files = Map.empty, jd_dirs = Map.empty, jd_mtime = 9\<rparr>"
  note inst = classification_pure [of ?d ?d']
  have "dir_state ?d = dir_state ?d'"
    using inst by simp
  moreover have "dir_state ?d = READY"
    using inst [THEN conjunct2] by (simp add: startswith_def lower_def lower_char_def)
  ultimately show ?thesis by blast
qed

section \<open>The masked destination of the log\<close>

lemma length_last_join_parts: "ps \<noteq> [] \<Longrightarrow> length (last ps) \<le> length (join_parts ps)"
  by (induction ps rule: join_parts.induct) auto

lemma path_name_le_path_str: "length (path_name p) \<le> length (path_str p)"
  using length_last_join_parts [of "pp_parts p"]
  by (auto simp: path_name_def path_str_def)

lemma censor_pt_id_eq:
  "censor_pt_id p =
     take (length (path_str p) - length (path_name p) div 2) (path_str p)
     @ replicate (length (path_name p) div 2) CHR ''*''"
proof -
  define n where "n = length (path_str p)"
  define h where "h = length (path_name p) div 2"
  have le: "h \<le> n"
    using path_name_le_path_str [of p] by (simp add: n_def h_def)
  have k: "int n - int (length (path_name p)) div 2 = int (n - h)"
    using le by (simp add: h_def of_nat_diff zdiv_int)
  have "slice_to (path_str p) (int n - int (length (path_name p)) div 2) = take (n - h) (path_str p)"
    unfolding k slice_to_def by simp
  moreover have "n - length (take (n - h) (path_str p)) = h"
    using le by (simp add: n_def)
  ultimately show ?thesis
    unfolding censor_pt_id_def Let_def n_def [symmetric] h_def [symmetric] by simp
qed

text \<open>
  Claim C8. \<open>copy_file_to_dir\<close> and \<open>copy_scan_to_dir\<close> write the destination into the log
  as \<open>censor_pt_id\<close> returns it, and the comment of \<open>censor_pt_id\<close> gives its purpose: ``so
  as to not have full patient ID in the log''. The number of masked characters is
  \<open>len(name) // 2\<close>, which is zero for a name of one character: for the destination
  folder \<open>7\<close> under \<open>returns\<close> on drive \<open>C:\<close>, of the patient with id \<open>7\<close>, the text
  that is logged is the whole path, the patient id included, and holds no \<open>*\<close>. Beside it, the destination of a patient with a
  ten-character id, where the last five characters are masked.
\<close>

theorem censor_pt_id_short_name_unmasked:
  "censor_pt_id \<lparr>pp_anchor = ''C:'' @ [sep], pp_parts = [''returns'', ''7'']\<rparr>
     = path_str \<lparr>pp_anchor = ''C:'' @ [sep], pp_parts = [''returns'', ''7'']\<rparr>
   \<and> path_name \<lparr>pp_anchor = ''C:'' @ [sep], pp_parts = [''returns'', ''7'']\<rparr> = ''7''
   \<and> endswith (censor_pt_id \<lparr>pp_anchor = ''C:'' @ [sep], pp_parts = [''returns'', ''7'']\<rparr>) ''7''
   \<and> CHR ''*'' \<notin> set (censor_pt_id \<lparr>pp_anchor = ''C:'' @ [sep], pp_parts = [''returns'', ''7'']\<rparr>)
   \<and> censor_pt_id \<lparr>pp_anchor = ''C:'' @ [sep], pp_parts = [''returns'', ''0101701234'']\<rparr>
       = ''C:'' @ [sep] @ ''returns'' @ [sep] @ ''01017*****''"
  by (simp add: censor_pt_id_def path_str_def path_name_def slice_to_def endswith_def sep_def)

section \<open>Quarantine by renaming\<close>












section \<open>The supervisor's rolling window\<close>






section \<open>The scheduler's choice among ready jobs\<close>

text \<open>
  Claim C1 at three ready jobs with priorities 10, 1, 1. The two jobs of priority 1 were
  modified on Thursday 4 January 2024 (\<open>ready_B\<close>) and, a day earlier, on Wednesday
  3 January 2024 (\<open>ready_C\<close>). The sort key holds the text of \<open>time.ctime\<close>, and
  \<open>Thu Jan  4 ...\<close> is smaller than \<open>Wed Jan  3 ...\<close> as a string: the scheduler activates
  the later job \<open>ready_B\<close>, not the earliest one.
\<close>

theorem load_ready_compares_ctime_text:
  "ctime 0 1704326400 = ''Thu Jan  4 00:00:00 2024''
   \<and> ctime 0 1704240000 = ''Wed Jan  3 00:00:00 2024''
   \<and> (case poll_cycle wd_cfg utc_host
              [ready_job ''ready_A'' [''NiceLevel:\"10\"''] 1704153600,
               ready_job ''ready_B'' [''NiceLevel:\"1\"''] 1704326400,
               ready_job ''ready_C'' [''NiceLevel:\"1\"''] 1704240000] of
         (e, fs, launched) \<Rightarrow> (e, map jd_name fs, launched))
       = (None, [''ready_A'', ''active_B'', ''ready_C''], Some ''active_B'')"
  by (simp add: wd_eval str_eval ctime_eval)

section \<open>A malformed nicelevel\<close>

lemma poll_cycle_unquoted_nicelevel:
  "poll_cycle wd_cfg utc_host [ready_job ''ready_X'' [''ModelName:\"m\"'', ''NiceLevel:5''] 1704240000]
     = (Some IndexError, [ready_job ''ready_X'' [''ModelName:\"m\"'', ''NiceLevel:5''] 1704240000], None)"
  by (simp add: wd_eval str_eval ctime_eval)

text \<open>
  Claim C2 at a ready job whose configuration file holds the line \<open>NiceLevel:5\<close>, without
  the double quotes. Splitting the line at the double quote gives one piece, the index
  \<open>[1]\<close> raises \<open>IndexError\<close>, \<open>load\<close> catches \<open>ValueError\<close> only, and the exception leaves
  the polling loop on its first pass, however many passes were to follow: the worker ends
  and the job is still \<open>ready_X\<close>. A nicelevel that is quoted but no integer is caught:
  the job gets priority 10 and is activated.
\<close>

theorem unquoted_nicelevel_ends_polling_loop:
  "read_nicelevel [''ModelName:\"m\"'', ''NiceLevel:5''] None = Inl IndexError
   \<and> (case watchdog_worker wd_cfg utc_host (Suc n)
              [ready_job ''ready_X'' [''ModelName:\"m\"'', ''NiceLevel:5''] 1704240000] of
         (e, fs, launched) \<Rightarrow> (e, map jd_name fs, launched))
       = (Some IndexError, [''ready_X''], [])
   \<and> read_nicelevel [''ModelName:\"m\"'', ''NiceLevel:\"NOTVALID\"''] None = Inr None
   \<and> (case poll_cycle wd_cfg utc_host
              [ready_job ''ready_Y'' [''ModelName:\"m\"'', ''NiceLevel:\"NOTVALID\"''] 1704240000] of
         (e, fs, launched) \<Rightarrow> (e, map jd_name fs, launched))
       = (None, [''active_Y''], Some ''active_Y'')"
proof -
  have 1: "read_nicelevel [''ModelName:\"m\"'', ''NiceLevel:5''] None = Inl IndexError"
    by (simp add: str_eval)
  have 2: "(case watchdog_worker wd_cfg utc_host (Suc n)
              [ready_job ''ready_X'' [''ModelName:\"m\"'', ''NiceLevel:5''] 1704240000] of
         (e, fs, launched) \<Rightarrow> (e, map jd_name fs, launched))
       = (Some IndexError, [''ready_X''], [])"
    by (simp add: poll_cycle_unquoted_nicelevel) (simp add: ready_job_def)
  have 3: "read_nicelevel [''ModelName:\"m\"'', ''NiceLevel:\"NOTVALID\"''] None = Inr None"
    by (simp add: str_eval)
  have 4: "(case poll_cycle wd_cfg utc_host
              [ready_job ''ready_Y'' [''ModelName:\"m\"'', ''NiceLevel:\"NOTVALID\"''] 1704240000] of
         (e, fs, launched) \<Rightarrow> (e, map jd_name fs, launched))
       = (None, [''active_Y''], Some ''active_Y'')"
    by (simp add: wd_eval str_eval ctime_eval)
  show ?thesis using 1 2 3 4 by blast
qed

section \<open>Associations with a network destination\<close>







section \<open>A destination folder that cannot be created\<close>

text \<open>
  Claim C6. In the loop of \<open>send_struct_to_all_returns\<close> over the filesystem destinations,
  \<open>os.mkdir\<close> of the patient's folder stands in a \<open>try\<close> whose only handler is for
  \<open>FileNotFoundError\<close>; the comment of the handler reads ``if making the directory fails,
  skip to the next return address''. A job has the destinations \<open>A\<close> and \<open>B\<close> and one
  network destination, and the host refuses the folder under \<open>A\<close> with \<open>PermissionError\<close>
  (a share without write access). The exception leaves the function after the one
  \<open>mkdir\<close>: the flag is not set, nothing is attempted for \<open>B\<close> or for the network
  destination, and the folder is neither renamed nor removed. In the worker the exception
  ends the polling loop at the first of two scans, the job still under its \<open>inferred_\<close>
  name. Where the host refuses with \<open>FileNotFoundError\<close> instead, the flag is set, \<open>B\<close> and
  the network destination are served and the job is renamed.
\<close>

theorem mkdir_permission_error_aborts_fan_out:
  "send_struct_to_all_returns
       (ok_host\<lparr>mkdir_refused := (\<lambda>base pid. if base = ''A'' then Some PermissionError else None)\<rparr>)
       rs_cfg [''dcmoutput'', ''rtstruct.dcm''] False
       (loaded (inferred_job ''inferred_1'' [''rtstruct.dcm''] []) [share ''A'', share ''B'']
          [pacs ''10.0.0.5'' ''false''])
     = (Some PermissionError,
        (loaded (inferred_job ''inferred_1'' [''rtstruct.dcm''] []) [share ''A'', share ''B'']
           [pacs ''10.0.0.5'' ''false''])\<lparr>rs_trace := [Mkdir ''A'' ''0101701234'']\<rparr>)
   \<and> (case returnservice_worker
         (ok_host\<lparr>mkdir_refused := (\<lambda>base pid. if base = ''A'' then Some PermissionError else None)\<rparr>)
         rs_cfg (Suc (Suc 0))
         ([configured_job ''inferred_1''
             [''ModelName:\"m\"'', ''ReturnDirectory_1:\"A\"'', ''ReturnDirectory_2:\"B\"'',
              ''ReturnDicomNodeIP_1:\"10.0.0.5\"'', ''ReturnDicomNodePort_1:\"104\"'',
              ''ReturnDicomNodeAET_1:\"PACS\"'']
             [''rtstruct.dcm''] []], [])
       of (e, fs, tr) \<Rightarrow> (e, map jd_name fs, tr))
     = (Some PermissionError, [''inferred_1''], [Mkdir ''A'' ''0101701234''])
   \<and> (case send_struct_to_all_returns
         (ok_host\<lparr>mkdir_refused := (\<lambda>base pid. if base = ''A'' then Some FileNotFoundError else None)\<rparr>)
         rs_cfg [''dcmoutput'', ''rtstruct.dcm''] False
         (loaded (inferred_job ''inferred_1'' [''rtstruct.dcm''] []) [share ''A'', share ''B'']
            [pacs ''10.0.0.5'' ''false''])
       of (e, st) \<Rightarrow> (e, transmission_failed st, rs_trace st, map jd_name (rs_fs st)))
     = (None, True,
        [Mkdir ''A'' ''0101701234'', Mkdir ''B'' ''0101701234'',
         Copy2 [''dcmoutput'', ''rtstruct.dcm''] ''B'' ''0101701234'',
         Associate ''10.0.0.5'' 104 ''PACS'' True,
         CStore ''10.0.0.5'' 104 ''PACS'' [''dcmoutput'', ''rtstruct.dcm''],
         Release ''10.0.0.5'' 104 ''PACS'',
         Rename ''inferred_1'' ''handled_error_1''],
        [''handled_error_1''])"
  by (simp add: rs_eval scan_eval str_eval)

section \<open>The end of an inferred job\<close>





section \<open>An inferred job without exactly one artifact\<close>




end
